theory Spec2Isabelle
  imports Complex_Main "HOL-Library.Multiset"
begin

section \<open>JavaScript numbers\<close>

text \<open>
  The server computes with JavaScript numbers, which are IEEE 754 doubles. A number is
  modelled as the real number it denotes, or one of the three special values. Arithmetic
  on the special values follows IEEE 754. A finite result that is too large becomes
  infinite and one that is too small becomes zero, as in the source. A finite result
  within range is kept as the exact real: its rounding to 53 significant bits, and the
  sign of zero, are outside this model. The claims below are therefore stated through
  these operations, applied in the order in which the code applies them.
\<close>

datatype jsnum = Num real | PosInf | NegInf | NaN

text \<open>
  The largest double is \<open>2 ^ 1024 - 2 ^ 971\<close>. Rounding to nearest turns every real of
  magnitude at least \<open>2 ^ 1024 - 2 ^ 970\<close> into an infinity (overflow), and every real of
  magnitude at most \<open>1 / 2 ^ 1075\<close>, half the smallest positive double, into zero
  (underflow).
\<close>

definition overflow_threshold :: real where
  "overflow_threshold = 2 ^ 1024 - 2 ^ 970"

definition underflow_threshold :: real where
  "underflow_threshold = 1 / 2 ^ 1075"

definition overflow :: "real \<Rightarrow> jsnum" where
  "overflow x =
     (if overflow_threshold \<le> x then PosInf
      else if x \<le> - overflow_threshold then NegInf
      else Num x)"

definition range_result :: "real \<Rightarrow> jsnum" where
  "range_result x = (if \<bar>x\<bar> \<le> underflow_threshold then Num 0 else overflow x)"

fun js_neg :: "jsnum \<Rightarrow> jsnum" where
  "js_neg (Num x) = Num (- x)"
| "js_neg PosInf = NegInf"
| "js_neg NegInf = PosInf"
| "js_neg NaN = NaN"

text \<open>
  \<open>a + b\<close>. A sum of two doubles is zero or at least the smallest positive double in
  magnitude, so a sum overflows but never underflows.
\<close>

fun js_add :: "jsnum \<Rightarrow> jsnum \<Rightarrow> jsnum" where
  "js_add (Num x) (Num y) = overflow (x + y)"
| "js_add (Num x) PosInf = PosInf"
| "js_add (Num x) NegInf = NegInf"
| "js_add PosInf (Num y) = PosInf"
| "js_add PosInf PosInf = PosInf"
| "js_add PosInf NegInf = NaN"
| "js_add NegInf (Num y) = NegInf"
| "js_add NegInf NegInf = NegInf"
| "js_add NegInf PosInf = NaN"
| "js_add NaN b = NaN"
| "js_add a NaN = NaN"

text \<open>\<open>a - b\<close>\<close>

definition js_sub :: "jsnum \<Rightarrow> jsnum \<Rightarrow> jsnum" where
  "js_sub a b = js_add a (js_neg b)"

text \<open>\<open>a / b\<close>; a zero divisor is taken as \<open>+0\<close>.\<close>

fun js_div :: "jsnum \<Rightarrow> jsnum \<Rightarrow> jsnum" where
  "js_div (Num x) (Num y) =
     (if y = 0 then (if x = 0 then NaN else if 0 < x then PosInf else NegInf)
      else range_result (x / y))"
| "js_div (Num x) PosInf = Num 0"
| "js_div (Num x) NegInf = Num 0"
| "js_div PosInf (Num y) = (if y < 0 then NegInf else PosInf)"
| "js_div NegInf (Num y) = (if y < 0 then PosInf else NegInf)"
| "js_div PosInf PosInf = NaN"
| "js_div PosInf NegInf = NaN"
| "js_div NegInf PosInf = NaN"
| "js_div NegInf NegInf = NaN"
| "js_div NaN b = NaN"
| "js_div a NaN = NaN"

text \<open>\<open>a < b\<close> and \<open>a <= b\<close>: every comparison with \<open>NaN\<close> is false.\<close>

fun js_lt :: "jsnum \<Rightarrow> jsnum \<Rightarrow> bool" where
  "js_lt (Num x) (Num y) = (x < y)"
| "js_lt (Num x) PosInf = True"
| "js_lt NegInf (Num y) = True"
| "js_lt NegInf PosInf = True"
| "js_lt a b = False"

definition js_le :: "jsnum \<Rightarrow> jsnum \<Rightarrow> bool" where
  "js_le a b = (a \<noteq> NaN \<and> b \<noteq> NaN \<and> (js_lt a b \<or> a = b))"

definition isNaN :: "jsnum \<Rightarrow> bool" where
  "isNaN v = (v = NaN)"

text \<open>\<open>Math.pow(x, n)\<close> for a natural exponent (the source only ever passes the literal 2).\<close>

fun Math_pow :: "jsnum \<Rightarrow> nat \<Rightarrow> jsnum" where
  "Math_pow (Num x) n = range_result (x ^ n)"
| "Math_pow PosInf n = (if n = 0 then Num 1 else PosInf)"
| "Math_pow NegInf n = (if n = 0 then Num 1 else if even n then PosInf else NegInf)"
| "Math_pow NaN n = (if n = 0 then Num 1 else NaN)"

fun Math_sqrt :: "jsnum \<Rightarrow> jsnum" where
  "Math_sqrt (Num x) = (if x < 0 then NaN else Num (sqrt x))"
| "Math_sqrt PosInf = PosInf"
| "Math_sqrt NegInf = NaN"
| "Math_sqrt NaN = NaN"

text \<open>
  \<open>Math.min(...vs)\<close> and \<open>Math.max(...vs)\<close>: \<open>NaN\<close> if any argument is \<open>NaN\<close>, otherwise
  the running extremum, which starts at \<open>Infinity\<close> for \<open>min\<close> and \<open>-Infinity\<close> for \<open>max\<close>.
  An engine's limit on the number of arguments of a call is outside this model.
\<close>

definition Math_min :: "jsnum list \<Rightarrow> jsnum" where
  "Math_min vs =
     (if NaN \<in> set vs then NaN
      else foldl (\<lambda>lowest v. if js_lt v lowest then v else lowest) PosInf vs)"

definition Math_max :: "jsnum list \<Rightarrow> jsnum" where
  "Math_max vs =
     (if NaN \<in> set vs then NaN
      else foldl (\<lambda>highest v. if js_lt highest v then v else highest) NegInf vs)"

section \<open>\<open>Array.prototype.sort\<close> with the comparator \<open>(a, b) => a - b\<close>\<close>

text \<open>
  The comparator's result is taken as \<open>+0\<close> when it is \<open>NaN\<close> (as \<open>Infinity - Infinity\<close>
  is). The sort is stable; it is modelled as an insertion sort that puts an element before
  the first one it does not compare greater than.
\<close>

definition sort_compare :: "jsnum \<Rightarrow> jsnum \<Rightarrow> jsnum" where
  "sort_compare a b = (let v = js_sub a b in if isNaN v then Num 0 else v)"

fun js_insort :: "jsnum \<Rightarrow> jsnum list \<Rightarrow> jsnum list" where
  "js_insort x [] = [x]"
| "js_insort x (y # ys) =
     (if js_lt (Num 0) (sort_compare x y) then y # js_insort x ys else x # y # ys)"

fun js_sort :: "jsnum list \<Rightarrow> jsnum list" where
  "js_sort [] = []"
| "js_sort (x # xs) = js_insort x (js_sort xs)"

section \<open>JSON values and \<open>parseFloat\<close>\<close>

text \<open>
  The values a record or the form data can hold are JSON values. \<open>JFunction\<close> stands for
  the built-in functions that every object inherits.
\<close>

datatype jsval =
    JNull
  | JBool bool
  | JNum jsnum
  | JStr string
  | JArr "jsval list"
  | JObj "(string \<times> jsval) list"
  | JFunction

text \<open>
  Strings are lists of characters with codes below 256. White space is what
  \<open>parseFloat\<close> strips from the front: TAB, LF, VT, FF, CR, SPACE and NBSP.
\<close>

definition is_white_space :: "char \<Rightarrow> bool" where
  "is_white_space c = ((of_char c :: nat) \<in> {9, 10, 11, 12, 13, 32, 160})"

definition is_digit :: "char \<Rightarrow> bool" where
  "is_digit c = (48 \<le> (of_char c :: nat) \<and> (of_char c :: nat) \<le> 57)"

definition digits_value :: "string \<Rightarrow> nat" where
  "digits_value ds = foldl (\<lambda>a c. 10 * a + (of_char c - 48)) 0 ds"

text \<open>
  The exponent part \<open>e\<close>/\<open>E\<close>, an optional sign and at least one digit; when the digits
  are missing the literal ends before the \<open>e\<close> and the exponent is 0.
\<close>

definition exponent_part :: "string \<Rightarrow> int" where
  "exponent_part s =
     (case s of
        [] \<Rightarrow> 0
      | c # t \<Rightarrow>
          if c = CHR ''e'' \<or> c = CHR ''E'' then
            (case t of
               [] \<Rightarrow> 0
             | d # u \<Rightarrow>
                 if d = CHR ''+'' then
                   (if takeWhile is_digit u = [] then 0
                    else int (digits_value (takeWhile is_digit u)))
                 else if d = CHR ''-'' then
                   (if takeWhile is_digit u = [] then 0
                    else - int (digits_value (takeWhile is_digit u)))
                 else
                   (if takeWhile is_digit t = [] then 0
                    else int (digits_value (takeWhile is_digit t))))
          else 0)"

text \<open>
  The longest prefix that is an unsigned decimal literal: \<open>Infinity\<close>, or digits with an
  optional fraction and exponent, or a fraction that starts with the point. No such prefix
  gives \<open>NaN\<close>. The literal's decimal value overflows to \<open>Infinity\<close> (as \<open>1e400\<close> does)
  and underflows to 0 (as \<open>1e-400\<close> does).
\<close>

definition str_unsigned_decimal :: "string \<Rightarrow> jsnum" where
  "str_unsigned_decimal s =
     (if take 8 s = ''Infinity'' then PosInf
      else
        let ip = takeWhile is_digit s;
            r1 = dropWhile is_digit s;
            fp = (case r1 of [] \<Rightarrow> [] | c # t \<Rightarrow> if c = CHR ''.'' then takeWhile is_digit t else []);
            r2 = (case r1 of [] \<Rightarrow> [] | c # t \<Rightarrow> if c = CHR ''.'' then dropWhile is_digit t else r1)
        in if ip = [] \<and> fp = [] then NaN
           else
             let m = real (digits_value (ip @ fp)) / 10 ^ length fp;
                 e = exponent_part r2
             in range_result (if 0 \<le> e then m * 10 ^ nat e else m / 10 ^ nat (- e)))"

definition parseFloat_str :: "string \<Rightarrow> jsnum" where
  "parseFloat_str s =
     (case dropWhile is_white_space s of
        [] \<Rightarrow> NaN
      | c # t \<Rightarrow>
          if c = CHR ''-'' then js_neg (str_unsigned_decimal t)
          else if c = CHR ''+'' then str_unsigned_decimal t
          else str_unsigned_decimal (c # t))"

text \<open>
  \<open>parseFloat\<close> first turns its argument into a string. \<open>null\<close>, \<open>true\<close>, \<open>false\<close>,
  \<open>[object Object]\<close> and the text of a function have no numeric prefix. A number prints
  as a literal that reads back as the same number. An array prints its elements separated
  by commas (an empty array as the empty string), so the prefix that is read is the one of
  its first element. This is the value when the conversion to a string raises no error;
  \<open>toString_throws\<close> below says when it does.
\<close>

fun parseFloat_val :: "jsval \<Rightarrow> jsnum" where
  "parseFloat_val JNull = NaN"
| "parseFloat_val (JBool b) = NaN"
| "parseFloat_val (JNum x) = x"
| "parseFloat_val (JStr s) = parseFloat_str s"
| "parseFloat_val (JArr []) = NaN"
| "parseFloat_val (JArr (v # vs)) = parseFloat_val v"
| "parseFloat_val (JObj kvs) = NaN"
| "parseFloat_val JFunction = NaN"

text \<open>A property read that finds nothing is \<open>undefined\<close>, here \<open>None\<close>.\<close>

fun parseFloat :: "jsval option \<Rightarrow> jsnum" where
  "parseFloat None = NaN"
| "parseFloat (Some v) = parseFloat_val v"

text \<open>
  Turning an object into a string calls its \<open>toString\<close>. A parsed JSON object that has a
  member of its own named \<open>toString\<close> hides the inherited function behind a value that
  cannot be called, and the conversion raises a \<open>TypeError\<close>. An array converts each of
  its elements.
\<close>

datatype error = TypeError

fun toString_throws :: "jsval \<Rightarrow> bool" where
  "toString_throws (JObj kvs) = (''toString'' \<in> fst ` set kvs)"
| "toString_throws (JArr []) = False"
| "toString_throws (JArr (v # vs)) = (toString_throws v \<or> toString_throws (JArr vs))"
| "toString_throws v = False"

fun parseFloat_checked :: "jsval option \<Rightarrow> error + jsnum" where
  "parseFloat_checked None = Inr NaN"
| "parseFloat_checked (Some v) = (if toString_throws v then Inl TypeError else Inr (parseFloat_val v))"

section \<open>Schema fields, records and summaries\<close>

datatype field_type = Text | Number | Date | Select

record field =
  name :: string
  type :: field_type
  options :: "string list option"
  required :: bool

text \<open>
  The field descriptor of the front end's \<open>interface Field\<close>; its \<open>type\<close> is the closed
  union \<open>'text' | 'number' | 'date' | 'select'\<close>.

  A record's \<open>data\<close>, and the form's \<open>formData\<close>, is a plain object: a mapping from its
  own keys to their values.
\<close>

type_synonym item = "string \<rightharpoonup> jsval"

text \<open>
  \<open>obj[key]\<close>: the object's own member, and otherwise the member of that name that
  every object inherits from \<open>Object.prototype\<close>, if there is one: a built-in function,
  or the prototype object itself for \<open>__proto__\<close>. Otherwise \<open>undefined\<close>.
\<close>

definition Object_prototype_keys :: "string list" where
  "Object_prototype_keys =
     [''constructor'', ''hasOwnProperty'', ''isPrototypeOf'', ''propertyIsEnumerable'',
      ''toLocaleString'', ''toString'', ''valueOf'', ''__proto__'',
      ''__defineGetter__'', ''__defineSetter__'', ''__lookupGetter__'', ''__lookupSetter__'']"

definition get_property :: "item \<Rightarrow> string \<Rightarrow> jsval option" where
  "get_property obj key =
     (case obj key of
        Some v \<Rightarrow> Some v
      | None \<Rightarrow>
          if key = ''__proto__'' then Some (JObj [])
          else if key \<in> set Object_prototype_keys then Some JFunction
          else None)"

record summary =
  count_s :: nat
  mean :: jsnum
  median :: jsnum
  min_s :: jsnum
  max_s :: jsnum
  standardDeviation :: jsnum
  variance :: jsnum

section \<open>The statistics computation\<close>

text \<open>
  An index read outside the array gives \<open>undefined\<close>, which the arithmetic of the even
  branch turns into \<open>NaN\<close>; the odd branch never reads outside.
\<close>

definition at_index :: "jsnum list \<Rightarrow> int \<Rightarrow> jsnum" where
  "at_index xs i = (if 0 \<le> i \<and> i < int (length xs) then xs ! nat i else NaN)"

definition getMedian :: "jsnum list \<Rightarrow> jsnum" where
  "getMedian sortedValues =
     (let mid = int (length sortedValues div 2)
      in if length sortedValues mod 2 \<noteq> 0
         then at_index sortedValues mid
         else js_div (js_add (at_index sortedValues (mid - 1)) (at_index sortedValues mid))
                (Num 2))"

text \<open>
  \<open>data.map(item => parseFloat(item[field.name])).filter(v => !isNaN(v) && v !== null &&
  v !== undefined)\<close>: the value filtered is a number, never \<open>null\<close> or \<open>undefined\<close>, so
  the last two tests always pass.
\<close>

definition field_values :: "item list \<Rightarrow> string \<Rightarrow> jsnum list" where
  "field_values data nm =
     filter (\<lambda>v. \<not> isNaN v) (map (\<lambda>item. parseFloat (get_property item nm)) data)"

text \<open>
  The body of \<open>if (values.length > 0)\<close>. \<open>values.sort\<close> sorts the array in place and
  returns it, so \<open>values\<close> and \<open>sortedValues\<close> are the same sorted array from then on.
\<close>

definition field_summary :: "jsnum list \<Rightarrow> summary" where
  "field_summary values0 =
     (let sortedValues = js_sort values0;
          values = sortedValues;
          mean' = js_div (foldl (\<lambda>a b. js_add a b) (Num 0) values)
                    (Num (real (length values)));
          variance' = js_div (foldl (\<lambda>a b. js_add a (Math_pow (js_sub b mean') 2)) (Num 0) values)
                        (Num (real (length values)))
      in \<lparr> count_s = length values,
           mean = mean',
           median = getMedian sortedValues,
           min_s = Math_min values,
           max_s = Math_max values,
           standardDeviation = Math_sqrt variance',
           variance = variance' \<rparr>)"

text \<open>
  The result object as the mapping of its own keys. (An assignment to the key
  \<open>__proto__\<close> would set the result's prototype instead of a key; a numeric field of that
  name is outside this model.)
\<close>

definition calculateStatistics :: "item list \<Rightarrow> field list \<Rightarrow> (string \<rightharpoonup> summary)" where
  "calculateStatistics data fields' =
     foldl (\<lambda>stats field.
              if type field = Number then
                (let values = field_values data (name field)
                 in if length values > 0
                    then stats(name field \<mapsto> field_summary values)
                    else stats)
              else stats)
           Map.empty fields'"

text \<open>
  The same computation with the error it can raise: the call fails with a \<open>TypeError\<close>
  at the first value whose conversion to a string fails, and otherwise returns the
  mapping above.
\<close>

fun field_numbers_checked :: "item list \<Rightarrow> string \<Rightarrow> error + jsnum list" where
  "field_numbers_checked [] nm = Inr []"
| "field_numbers_checked (item # rest) nm =
     (case parseFloat_checked (get_property item nm) of
        Inl e \<Rightarrow> Inl e
      | Inr v \<Rightarrow>
          (case field_numbers_checked rest nm of
             Inl e \<Rightarrow> Inl e
           | Inr vs \<Rightarrow> Inr (v # vs)))"

definition field_values_checked :: "item list \<Rightarrow> string \<Rightarrow> error + jsnum list" where
  "field_values_checked data nm =
     (case field_numbers_checked data nm of
        Inl e \<Rightarrow> Inl e
      | Inr vs \<Rightarrow> Inr (filter (\<lambda>v. \<not> isNaN v) vs))"

definition calculateStatistics_checked ::
    "item list \<Rightarrow> field list \<Rightarrow> error + (string \<rightharpoonup> summary)" where
  "calculateStatistics_checked data fields' =
     foldl (\<lambda>acc field.
              case acc of
                Inl e \<Rightarrow> Inl e
              | Inr stats \<Rightarrow>
                  if type field = Number then
                    (case field_values_checked data (name field) of
                       Inl e \<Rightarrow> Inl e
                     | Inr values \<Rightarrow>
                         Inr (if length values > 0
                              then stats(name field \<mapsto> field_summary values)
                              else stats))
                  else Inr stats)
           (Inr Map.empty) fields'"

section \<open>The entry form's submission check\<close>

text \<open>\<open>!v\<close> is false exactly for the truthy values.\<close>

fun truthy :: "jsval option \<Rightarrow> bool" where
  "truthy None = False"
| "truthy (Some JNull) = False"
| "truthy (Some (JBool b)) = b"
| "truthy (Some (JNum x)) = (x \<noteq> Num 0 \<and> x \<noteq> NaN)"
| "truthy (Some (JStr s)) = (s \<noteq> [])"
| "truthy (Some (JArr vs)) = True"
| "truthy (Some (JObj kvs)) = True"
| "truthy (Some JFunction) = True"

text \<open>
  \<open>handleSubmit\<close> either alerts a message and returns, or posts \<open>formData\<close> to
  \<open>/api/entries\<close>, which stores it as it is.
\<close>

datatype submit_result = Alerted string | Posted item

fun handleSubmit_loop :: "field list \<Rightarrow> item \<Rightarrow> string option" where
  "handleSubmit_loop [] formData = None"
| "handleSubmit_loop (field # rest) formData =
     (if required field \<and> \<not> truthy (get_property formData (name field))
      then Some (name field @ '' is required'')
      else handleSubmit_loop rest formData)"

definition handleSubmit :: "field list \<Rightarrow> item \<Rightarrow> submit_result" where
  "handleSubmit fields' formData =
     (case handleSubmit_loop fields' formData of
        Some msg \<Rightarrow> Alerted msg
      | None \<Rightarrow> Posted formData)"

text \<open>
  What an input's \<open>onChange\<close> hands to \<open>handleInputChange\<close> for the string the control
  holds: the string itself, but \<open>parseFloat(e.target.value) || ''\<close> for a number field.
\<close>

definition renderField_onChange :: "field \<Rightarrow> string \<Rightarrow> jsval" where
  "renderField_onChange field raw =
     (if type field = Number
      then (let v = parseFloat_str raw in if truthy (Some (JNum v)) then JNum v else JStr [])
      else JStr raw)"

definition handleInputChange :: "item \<Rightarrow> string \<Rightarrow> jsval \<Rightarrow> item" where
  "handleInputChange formData fieldName v = formData(fieldName \<mapsto> v)"

text \<open>
  A value is absent or empty when there is none or it is the empty string. The values the
  entry form stores are strings and numbers other than 0 and \<open>NaN\<close>.
\<close>

definition absent_or_empty :: "jsval option \<Rightarrow> bool" where
  "absent_or_empty v = (v = None \<or> v = Some (JStr []))"

fun form_value :: "jsval option \<Rightarrow> bool" where
  "form_value None = True"
| "form_value (Some (JStr s)) = True"
| "form_value (Some (JNum x)) = (x \<noteq> Num 0 \<and> x \<noteq> NaN)"
| "form_value (Some v) = False"

section \<open>Values that are excluded\<close>

text \<open>
  A value from which \<open>parseFloat\<close> reads no number: a missing one, or a string that does
  not start (after white space) with a decimal literal.
\<close>

fun no_number_read :: "jsval option \<Rightarrow> bool" where
  "no_number_read None = True"
| "no_number_read (Some (JStr s)) = (parseFloat_str s = NaN)"
| "no_number_read (Some v) = False"

section \<open>A total order on numbers\<close>

text \<open>
  For the proofs, numbers carry the order \<open>-Infinity < x < Infinity\<close> of the non-\<open>NaN\<close>
  values, with \<open>NaN\<close> put above them all (the lists compared below hold no \<open>NaN\<close>).
\<close>

instantiation jsnum :: linorder
begin

definition less_eq_jsnum :: "jsnum \<Rightarrow> jsnum \<Rightarrow> bool" where
  "less_eq_jsnum a b = (b = NaN \<or> a = b \<or> js_lt a b)"

definition less_jsnum :: "jsnum \<Rightarrow> jsnum \<Rightarrow> bool" where
  "less_jsnum a b = (a \<noteq> b \<and> (b = NaN \<or> js_lt a b))"

instance
proof
  fix a b c :: jsnum
  show "(a < b) = (a \<le> b \<and> \<not> b \<le> a)"
    by (cases a; cases b) (auto simp: less_jsnum_def less_eq_jsnum_def)
  show "a \<le> a"
    by (simp add: less_eq_jsnum_def)
  show "a \<le> b \<Longrightarrow> b \<le> c \<Longrightarrow> a \<le> c"
    by (cases a; cases b; cases c) (auto simp: less_eq_jsnum_def)
  show "a \<le> b \<Longrightarrow> b \<le> a \<Longrightarrow> a = b"
    by (cases a; cases b) (auto simp: less_eq_jsnum_def)
  show "a \<le> b \<or> b \<le> a"
    by (cases a; cases b) (auto simp: less_eq_jsnum_def)
qed

end

section \<open>The spec's population variance\<close>

text \<open>
  The spec's words, with the number operations of the code: the sum adds the values to 0
  from left to right; the arithmetic mean is the sum divided by the count \<open>n\<close>; the
  population variance is the mean of the squared deviations from the arithmetic mean, so
  it divides by \<open>n\<close> as well.
\<close>

definition js_sum :: "jsnum list \<Rightarrow> jsnum" where
  "js_sum xs = foldl js_add (Num 0) xs"

definition arithmetic_mean :: "jsnum list \<Rightarrow> jsnum" where
  "arithmetic_mean xs = js_div (js_sum xs) (Num (real (length xs)))"

definition population_variance :: "jsnum list \<Rightarrow> jsnum" where
  "population_variance xs =
     arithmetic_mean (map (\<lambda>x. Math_pow (js_sub x (arithmetic_mean xs)) 2) xs)"

section \<open>Sorting, extrema and the result mapping\<close>

lemma overflow_threshold_pos: "0 < overflow_threshold"
  by (simp add: overflow_threshold_def)

lemma compare_pos_iff: "js_lt (Num 0) (sort_compare x y) = js_lt y x"
proof (cases x; cases y)
  fix a b assume "x = Num a" "y = Num b"
  then show ?thesis
    using overflow_threshold_pos
    by (auto simp: sort_compare_def js_sub_def isNaN_def overflow_def)
qed (simp_all add: sort_compare_def js_sub_def isNaN_def)

lemma js_lt_iff_less: "x \<noteq> NaN \<Longrightarrow> js_lt y x = (y < x)"
  by (cases x; cases y) (auto simp: less_jsnum_def)

lemma js_le_iff_le: "js_le a b = (a \<noteq> NaN \<and> b \<noteq> NaN \<and> a \<le> b)"
  by (cases a; cases b) (auto simp: js_le_def less_eq_jsnum_def)

lemma js_insort_eq: "x \<noteq> NaN \<Longrightarrow> js_insort x ys = insort x ys"
  by (induction ys) (auto simp: compare_pos_iff js_lt_iff_less)

lemma js_sort_eq: "NaN \<notin> set xs \<Longrightarrow> js_sort xs = sort xs"
  by (induction xs) (auto simp: js_insort_eq)

lemma js_sort_mset_eq:
  assumes "mset xs = mset ys" "NaN \<notin> set xs"
  shows "js_sort xs = js_sort ys"
proof -
  have "NaN \<notin> set ys" using assms by (metis set_mset_mset)
  moreover have "sort xs = sort ys"
    using assms(1) by (metis mset_sort sorted_sort properties_for_sort)
  ultimately show ?thesis using assms(2) by (simp add: js_sort_eq)
qed

lemma sorted_wrt_js_le_iff: "NaN \<notin> set xs \<Longrightarrow> sorted_wrt js_le xs = sorted xs"
  by (induction xs) (auto simp: js_le_iff_le)

lemma js_sort_unique:
  assumes "sorted_wrt js_le sv" "mset sv = mset xs" "NaN \<notin> set xs"
  shows "sv = js_sort xs"
proof -
  have "NaN \<notin> set sv" using assms by (metis set_mset_mset)
  then have "sorted sv" using assms(1) by (simp add: sorted_wrt_js_le_iff)
  then have "sort xs = sv" using assms(2) by (simp add: properties_for_sort)
  then show ?thesis using assms(3) by (simp add: js_sort_eq)
qed





lemma parseFloat_get_property: "parseFloat (get_property r k) = parseFloat (r k)"
  by (simp add: get_property_def split: option.split)

lemma field_values_eq:
  "field_values data nm = filter (\<lambda>v. v \<noteq> NaN) (map (\<lambda>r. parseFloat (r nm)) data)"
  by (simp add: field_values_def isNaN_def parseFloat_get_property)

lemma calculateStatistics_foldl:
  "foldl (\<lambda>stats field.
              if type field = Number then
                (let values = field_values data (name field)
                 in if length values > 0
                    then stats(name field \<mapsto> field_summary values)
                    else stats)
              else stats) st fs nm =
   (if (\<exists>f\<in>set fs. type f = Number \<and> name f = nm) \<and> field_values data nm \<noteq> []
    then Some (field_summary (field_values data nm)) else st nm)"
  by (induction fs arbitrary: st) (auto simp: Let_def)

lemma calculateStatistics_lookup:
  "calculateStatistics data fs nm =
   (if (\<exists>f\<in>set fs. type f = Number \<and> name f = nm) \<and> field_values data nm \<noteq> []
    then Some (field_summary (field_values data nm)) else None)"
  unfolding calculateStatistics_def by (subst calculateStatistics_foldl) simp

lemma field_values_no_NaN: "NaN \<notin> set (field_values data nm)"
  by (simp add: field_values_def isNaN_def)









section \<open>The errors of the computation\<close>

lemma error_is_TypeError: "(e :: error) = TypeError"
  by (cases e) simp

lemma field_numbers_checked_eq:
  "field_numbers_checked data nm =
     (if \<exists>item\<in>set data. parseFloat_checked (get_property item nm) = Inl TypeError
      then Inl TypeError
      else Inr (map (\<lambda>item. parseFloat (get_property item nm)) data))"
proof (induction data)
  case Nil
  then show ?case by simp
next
  case (Cons item rest)
  show ?case
  proof (cases "get_property item nm")
    case None
    then show ?thesis using Cons by simp
  next
    case (Some v)
    then show ?thesis using Cons by (simp add: error_is_TypeError)
  qed
qed

lemma field_values_checked_eq:
  "field_values_checked data nm =
     (if \<exists>item\<in>set data. parseFloat_checked (get_property item nm) = Inl TypeError
      then Inl TypeError
      else Inr (field_values data nm))"
  by (simp add: field_values_checked_def field_numbers_checked_eq field_values_def)

lemma calculateStatistics_checked_foldl:
  "foldl (\<lambda>acc field.
              case acc of
                Inl e \<Rightarrow> Inl e
              | Inr stats \<Rightarrow>
                  if type field = Number then
                    (case field_values_checked data (name field) of
                       Inl e \<Rightarrow> Inl e
                     | Inr values \<Rightarrow>
                         Inr (if length values > 0
                              then stats(name field \<mapsto> field_summary values)
                              else stats))
                  else Inr stats) acc fs =
   (case acc of
      Inl e \<Rightarrow> Inl e
    | Inr st \<Rightarrow>
        if \<exists>f\<in>set fs. type f = Number \<and> field_values_checked data (name f) = Inl TypeError
        then Inl TypeError
        else Inr (foldl (\<lambda>stats field.
              if type field = Number then
                (let values = field_values data (name field)
                 in if length values > 0
                    then stats(name field \<mapsto> field_summary values)
                    else stats)
              else stats) st fs))"
proof (induction fs arbitrary: acc)
  case Nil
  then show ?case by (simp split: sum.split)
next
  case (Cons f fs)
  show ?case
    by (subst foldl_Cons, subst Cons.IH)
      (auto simp: field_values_checked_eq Let_def error_is_TypeError split: sum.split)
qed

lemma calculateStatistics_checked_eq:
  "calculateStatistics_checked data fs =
     (if \<exists>f\<in>set fs. type f = Number \<and> field_values_checked data (name f) = Inl TypeError
      then Inl TypeError
      else Inr (calculateStatistics data fs))"
  unfolding calculateStatistics_checked_def calculateStatistics_def
  by (subst calculateStatistics_checked_foldl) simp

text \<open>A value with a member of its own named \<open>toString\<close> makes the call fail.\<close>

lemma own_toString_raises_TypeError:
  "calculateStatistics_checked
     [map_of [(''x'', JObj [(''toString'', JNum (Num 1))])]]
     [\<lparr>name = ''x'', type = Number, options = None, required = False\<rparr>] = Inl TypeError"
  by (simp add: calculateStatistics_checked_eq field_values_checked_eq get_property_def)

lemmas parse_defs = parseFloat_str_def str_unsigned_decimal_def is_white_space_def
  is_digit_def digits_value_def exponent_part_def range_result_def overflow_def
  overflow_threshold_def underflow_threshold_def

lemmas stats_defs = calculateStatistics_def field_values_def field_summary_def isNaN_def
  getMedian_def at_index_def Math_min_def Math_max_def sort_compare_def js_sub_def Let_def
  get_property_def Object_prototype_keys_def range_result_def overflow_def
  overflow_threshold_def underflow_threshold_def

text \<open>A literal beyond the range of the doubles reads as \<open>Infinity\<close>, one below it as 0.\<close>

lemma parseFloat_out_of_range:
  "parseFloat_str ''1e400'' = PosInf \<and> parseFloat_str ''-1e400'' = NegInf \<and>
   parseFloat_str ''1e-400'' = Num 0"
  by (simp add: parse_defs)

section \<open>Exclusion and omission\<close>

text \<open>
  C3, as stated, fails: \<open>"12abc"\<close> is a non-numeric string, and a record holding it is
  not excluded. It is counted, and it enters the statistics as 12.
\<close>

theorem numeric_prefix_string_is_included:
  "parseFloat_str ''12abc'' = Num 12 \<and>
   map_option count_s (calculateStatistics
     [map_of [(''age'', JNum (Num 5))], map_of [(''age'', JStr ''12abc'')], map_of [(''age'', JNum (Num 15))]]
     [\<lparr>name = ''age'', type = Number, options = None, required = True\<rparr>] ''age'') = Some 3 \<and>
   map_option median (calculateStatistics
     [map_of [(''age'', JNum (Num 5))], map_of [(''age'', JStr ''12abc'')], map_of [(''age'', JNum (Num 15))]]
     [\<lparr>name = ''age'', type = Number, options = None, required = True\<rparr>] ''age'') = Some (Num 12) \<and>
   map_option count_s (calculateStatistics
     [map_of [(''age'', JNum (Num 5))], map_of [(''age'', JNum (Num 15))]]
     [\<lparr>name = ''age'', type = Number, options = None, required = True\<rparr>] ''age'') = Some 2 \<and>
   map_option median (calculateStatistics
     [map_of [(''age'', JNum (Num 5))], map_of [(''age'', JNum (Num 15))]]
     [\<lparr>name = ''age'', type = Number, options = None, required = True\<rparr>] ''age'') = Some (Num 10)"
  by (simp add: parse_defs stats_defs)

text \<open>
  C3, amended: a record whose value for a numeric field is missing, or is a string from
  which \<open>parseFloat\<close> reads no number (a string with no numeric prefix, such as
  \<open>"oops"\<close>), is silently excluded. Wherever it stands among the records, that field's
  entry of the result is the one computed without it, so it adds nothing to the count, the
  mean or any other statistic. Its presence never makes the computation fail: reading and
  converting its value raises no error, reading the field's values fails with it exactly
  when it fails without it, and a record whose values for all numeric fields are of this
  kind leaves the outcome of the whole call, result or error, as it is without the record.
\<close>

theorem excluded_record_contributes_nothing:
  "(no_number_read (r nm) \<longrightarrow>
      calculateStatistics (before @ r # after) fs nm = calculateStatistics (before @ after) fs nm \<and>
      parseFloat_checked (get_property r nm) = Inr NaN \<and>
      field_values_checked (before @ r # after) nm = field_values_checked (before @ after) nm) \<and>
   ((\<forall>f\<in>set fs. type f = Number \<longrightarrow> no_number_read (r (name f))) \<longrightarrow>
      calculateStatistics_checked (before @ r # after) fs = calculateStatistics_checked (before @ after) fs)"
proof -
  have conv: "parseFloat_checked (get_property r k) = Inr NaN" if "no_number_read (r k)" for k
  proof (cases "r k")
    case None
    then show ?thesis by (simp add: get_property_def)
  next
    case (Some v)
    then show ?thesis using that by (cases v) (simp_all add: get_property_def)
  qed
  have vals: "field_values (before @ r # after) k = field_values (before @ after) k"
    if "no_number_read (r k)" for k
  proof -
    have "parseFloat (get_property r k) = NaN"
      using conv[OF that] by (cases "get_property r k") (simp_all split: if_splits)
    then show ?thesis by (simp add: field_values_def isNaN_def)
  qed
  have chk: "field_values_checked (before @ r # after) k = field_values_checked (before @ after) k"
    if "no_number_read (r k)" for k
    using conv[OF that] vals[OF that] by (simp add: field_values_checked_eq)
  have one: "calculateStatistics (before @ r # after) fs k = calculateStatistics (before @ after) fs k"
    if "no_number_read (r k)" for k
    using vals[OF that] by (simp add: calculateStatistics_lookup)
  have whole: "calculateStatistics_checked (before @ r # after) fs = calculateStatistics_checked (before @ after) fs"
    if a: "\<forall>f\<in>set fs. type f = Number \<longrightarrow> no_number_read (r (name f))"
  proof -
    have e: "(\<exists>f\<in>set fs. type f = Number \<and> field_values_checked (before @ r # after) (name f) = Inl TypeError)
        = (\<exists>f\<in>set fs. type f = Number \<and> field_values_checked (before @ after) (name f) = Inl TypeError)"
      using a chk by (metis (no_types, lifting))
    have m: "calculateStatistics (before @ r # after) fs = calculateStatistics (before @ after) fs"
    proof (rule ext)
      fix k
      show "calculateStatistics (before @ r # after) fs k = calculateStatistics (before @ after) fs k"
      proof (cases "\<exists>f\<in>set fs. type f = Number \<and> name f = k")
        case True
        then have "no_number_read (r k)" using a by blast
        then show ?thesis by (rule one)
      next
        case False
        then show ?thesis by (auto simp: calculateStatistics_lookup)
      qed
    qed
    show ?thesis by (simp only: calculateStatistics_checked_eq e m)
  qed
  show ?thesis using one conv chk whole by blast
qed

text \<open>The spec's second scenario: records \<open>5\<close>, \<open>"oops"\<close>, \<open>15\<close> for the field \<open>age\<close>.\<close>

theorem excluded_record_contributes_nothing_witness:
  "no_number_read (map_of [(''age'', JStr ''oops'')] ''age'') \<and>
   calculateStatistics
     [map_of [(''age'', JNum (Num 5))], map_of [(''age'', JStr ''oops'')], map_of [(''age'', JNum (Num 15))]]
     [\<lparr>name = ''age'', type = Number, options = None, required = True\<rparr>] ''age''
   = Some \<lparr>count_s = 2, mean = Num 10, median = Num 10, min_s = Num 5, max_s = Num 15,
            standardDeviation = Num 5, variance = Num 25\<rparr> \<and>
   calculateStatistics_checked
     [map_of [(''age'', JNum (Num 5))], map_of [(''age'', JStr ''oops'')], map_of [(''age'', JNum (Num 15))]]
     [\<lparr>name = ''age'', type = Number, options = None, required = True\<rparr>]
   = calculateStatistics_checked [map_of [(''age'', JNum (Num 5))], map_of [(''age'', JNum (Num 15))]]
     [\<lparr>name = ''age'', type = Number, options = None, required = True\<rparr>] \<and>
   calculateStatistics_checked [map_of [(''age'', JNum (Num 5))], map_of [(''age'', JNum (Num 15))]]
     [\<lparr>name = ''age'', type = Number, options = None, required = True\<rparr>]
   = Inr (calculateStatistics [map_of [(''age'', JNum (Num 5))], map_of [(''age'', JNum (Num 15))]]
     [\<lparr>name = ''age'', type = Number, options = None, required = True\<rparr>])"
proof -
  have p: "no_number_read (map_of [(''age'', JStr ''oops'')] ''age'')" by (simp add: parse_defs)
  have c: "calculateStatistics [map_of [(''age'', JNum (Num 5))], map_of [(''age'', JNum (Num 15))]]
     [\<lparr>name = ''age'', type = Number, options = None, required = True\<rparr>] ''age''
   = Some \<lparr>count_s = 2, mean = Num 10, median = Num 10, min_s = Num 5, max_s = Num 15,
            standardDeviation = Num 5, variance = Num 25\<rparr>"
    by (simp add: stats_defs)
  have ok: "calculateStatistics_checked [map_of [(''age'', JNum (Num 5))], map_of [(''age'', JNum (Num 15))]]
     [\<lparr>name = ''age'', type = Number, options = None, required = True\<rparr>]
   = Inr (calculateStatistics [map_of [(''age'', JNum (Num 5))], map_of [(''age'', JNum (Num 15))]]
     [\<lparr>name = ''age'', type = Number, options = None, required = True\<rparr>])"
    by (simp add: calculateStatistics_checked_eq field_values_checked_eq get_property_def)
  show ?thesis
    using excluded_record_contributes_nothing[where r = "map_of [(''age'', JStr ''oops'')]"
      and nm = "''age''" and before = "[map_of [(''age'', JNum (Num 5))]]"
      and after = "[map_of [(''age'', JNum (Num 15))]]"
      and fs = "[\<lparr>name = ''age'', type = Number, options = None, required = True\<rparr>]"] p c ok
    by simp
qed

text \<open>
  C4: a numeric field for which no record supplies a usable value (every \<open>parseFloat\<close>
  is \<open>NaN\<close>) has no entry in the result mapping; an empty record list gives the empty
  mapping, and so does a schema without numeric fields.
\<close>

theorem no_usable_value_field_absent:
  "((\<forall>r\<in>set data. parseFloat (r nm) = NaN) \<longrightarrow> calculateStatistics data fs nm = None) \<and>
   calculateStatistics [] fs = Map.empty \<and>
   ((\<forall>f\<in>set fs. type f \<noteq> Number) \<longrightarrow> calculateStatistics data fs = Map.empty)"
proof (intro conjI impI)
  assume "\<forall>r\<in>set data. parseFloat (r nm) = NaN"
  then have "field_values data nm = []"
    by (auto simp: field_values_eq filter_empty_conv)
  then show "calculateStatistics data fs nm = None"
    by (simp add: calculateStatistics_lookup)
next
  show "calculateStatistics [] fs = Map.empty"
    by (rule ext) (simp add: calculateStatistics_lookup field_values_def)
next
  assume "\<forall>f\<in>set fs. type f \<noteq> Number"
  then show "calculateStatistics data fs = Map.empty"
    by (intro ext) (auto simp: calculateStatistics_lookup)
qed

theorem no_usable_value_field_absent_witness:
  "parseFloat (map_of [(''age'', JStr ''oops'')] ''age'') = NaN \<and>
   parseFloat (map_of [(''note'', JStr ''7'')] ''age'') = NaN \<and>
   calculateStatistics [map_of [(''age'', JStr ''oops'')], map_of [(''note'', JStr ''7'')]]
     [\<lparr>name = ''age'', type = Number, options = None, required = True\<rparr>] ''age'' = None \<and>
   type \<lparr>name = ''note'', type = Text, options = None, required = False\<rparr> \<noteq> Number \<and>
   calculateStatistics [map_of [(''note'', JStr ''7'')]]
     [\<lparr>name = ''note'', type = Text, options = None, required = False\<rparr>] ''note'' = None"
  using no_usable_value_field_absent[where data = "[map_of [(''age'', JStr ''oops'')], map_of [(''note'', JStr ''7'')]]"
      and nm = "''age''" and fs = "[\<lparr>name = ''age'', type = Number, options = None, required = True\<rparr>]"]
    no_usable_value_field_absent[where data = "[map_of [(''note'', JStr ''7'')]]" and nm = "''note''"
      and fs = "[\<lparr>name = ''note'', type = Text, options = None, required = False\<rparr>]"]
  by (simp add: parse_defs)

section \<open>Order independence\<close>

text \<open>
  C9: two record lists that are permutations of each other give the same result mapping,
  so no summary value depends on the order of the records.
\<close>

theorem statistics_order_independent:
  assumes "mset data = mset data'"
  shows "calculateStatistics data fs = calculateStatistics data' fs"
proof (rule ext)
  fix nm
  have m: "mset (field_values data nm) = mset (field_values data' nm)"
    using assms by (simp add: field_values_def)
  then have "js_sort (field_values data nm) = js_sort (field_values data' nm)"
    by (rule js_sort_mset_eq) (rule field_values_no_NaN)
  then have "field_summary (field_values data nm) = field_summary (field_values data' nm)"
    by (simp add: field_summary_def)
  moreover have "(field_values data nm = []) = (field_values data' nm = [])"
    using m by (metis mset_zero_iff)
  ultimately show "calculateStatistics data fs nm = calculateStatistics data' fs nm"
    by (simp add: calculateStatistics_lookup)
qed

theorem statistics_order_independent_witness:
  "mset [map_of [(''age'', JNum (Num 30))], map_of [(''age'', JNum (Num 10))], map_of [(''age'', JNum (Num 20))]]
   = mset [map_of [(''age'', JNum (Num 10))], map_of [(''age'', JNum (Num 20))], map_of [(''age'', JNum (Num 30))]] \<and>
   calculateStatistics
     [map_of [(''age'', JNum (Num 30))], map_of [(''age'', JNum (Num 10))], map_of [(''age'', JNum (Num 20))]]
     [\<lparr>name = ''age'', type = Number, options = None, required = True\<rparr>]
   = calculateStatistics
     [map_of [(''age'', JNum (Num 10))], map_of [(''age'', JNum (Num 20))], map_of [(''age'', JNum (Num 30))]]
     [\<lparr>name = ''age'', type = Number, options = None, required = True\<rparr>]"
proof -
  have h: "mset [map_of [(''age'', JNum (Num 30))], map_of [(''age'', JNum (Num 10))], map_of [(''age'', JNum (Num 20))]]
   = mset [map_of [(''age'', JNum (Num 10))], map_of [(''age'', JNum (Num 20))], map_of [(''age'', JNum (Num 30))]]"
    by (simp add: add.commute add.left_commute)
  show ?thesis
    using h statistics_order_independent[OF h] by blast
qed

section \<open>Variance\<close>

lemma variance_field_summary:
  "variance (field_summary vs) = population_variance (js_sort vs)"
  by (simp add: field_summary_def Let_def population_variance_def arithmetic_mean_def
      js_sum_def foldl_map)

text \<open>
  C1: for a numeric field with at least one usable value (the field has an entry in the
  result), the reported variance is the population variance of the included values, taken
  in ascending order: the mean of the squared deviations from their arithmetic mean. The
  divisor of both means is the reported count \<open>n\<close>, not \<open>n - 1\<close>: the values 1, 2, 3, 6
  have variance \<open>14 / 4\<close>.
\<close>

theorem variance_is_population_variance:
  assumes "calculateStatistics data fs nm = Some s"
    and "sorted_wrt js_le sv" and "mset sv = mset (field_values data nm)"
  shows "variance s = population_variance sv \<and>
         variance s =
           js_div (js_sum (map (\<lambda>x. Math_pow (js_sub x (js_div (js_sum sv) (Num (real (count_s s))))) 2) sv))
             (Num (real (count_s s))) \<and>
         population_variance [Num 1, Num 2, Num 3, Num 6] = Num (7 / 2)"
proof -
  have s: "s = field_summary (field_values data nm)"
    using assms(1) by (auto simp: calculateStatistics_lookup split: if_splits)
  have sv: "sv = js_sort (field_values data nm)"
    using assms(2,3) by (rule js_sort_unique) (rule field_values_no_NaN)
  have v: "variance s = population_variance sv"
    by (simp add: s sv variance_field_summary)
  have n: "count_s s = length sv"
    by (simp add: s sv field_summary_def Let_def)
  have "population_variance [Num 1, Num 2, Num 3, Num 6] = Num (7 / 2)"
    by (simp add: population_variance_def arithmetic_mean_def js_sum_def js_sub_def
        range_result_def overflow_def overflow_threshold_def underflow_threshold_def
        power2_eq_square)
  then show ?thesis
    using v by (simp add: n population_variance_def arithmetic_mean_def)
qed

theorem variance_is_population_variance_witness:
  "map_option variance (calculateStatistics
     [map_of [(''v'', JNum (Num 6))], map_of [(''v'', JNum (Num 1))], map_of [(''v'', JNum (Num 3))], map_of [(''v'', JNum (Num 2))]]
     [\<lparr>name = ''v'', type = Number, options = None, required = True\<rparr>] ''v'') = Some (Num (7 / 2)) \<and>
   sorted_wrt js_le [Num 1, Num 2, Num 3, Num 6] \<and>
   mset [Num 1, Num 2, Num 3, Num 6] = mset (field_values
     [map_of [(''v'', JNum (Num 6))], map_of [(''v'', JNum (Num 1))], map_of [(''v'', JNum (Num 3))], map_of [(''v'', JNum (Num 2))]] ''v'')"
proof -
  let ?D = "[map_of [(''v'', JNum (Num 6))], map_of [(''v'', JNum (Num 1))], map_of [(''v'', JNum (Num 3))], map_of [(''v'', JNum (Num 2))]]"
  let ?F = "[\<lparr>name = ''v'', type = Number, options = None, required = True\<rparr>]"
  have c: "calculateStatistics ?D ?F ''v'' = Some (field_summary (field_values ?D ''v''))"
    by (simp add: calculateStatistics_lookup field_values_eq)
  have so: "sorted_wrt js_le [Num 1, Num 2, Num 3, Num 6]"
    by (simp add: js_le_def)
  have ms: "mset [Num 1, Num 2, Num 3, Num 6] = mset (field_values ?D ''v'')"
    by (simp add: field_values_eq)
  show ?thesis
    using variance_is_population_variance[OF c so ms] c so ms by simp
qed

section \<open>Which values are included\<close>



section \<open>Median\<close>

lemma getMedian_nth:
  assumes "sv \<noteq> []"
  shows "getMedian sv =
     (if odd (length sv) then sv ! (length sv div 2)
      else js_div (js_add (sv ! (length sv div 2 - 1)) (sv ! (length sv div 2))) (Num 2))"
proof (cases "odd (length sv)")
  case True
  then show ?thesis using assms
    by (simp add: getMedian_def at_index_def Let_def odd_iff_mod_2_eq_one)
next
  case False
  then obtain k where k: "length sv = 2 * k" by (auto elim: evenE)
  then have k0: "0 < k" using assms by (cases k) simp_all
  have d: "length sv div 2 = k" using k by simp
  have a1: "at_index sv (int k - 1) = sv ! (k - 1)"
    using k k0 by (simp add: at_index_def nat_diff_distrib')
  have a2: "at_index sv (int k) = sv ! k"
    using k k0 by (simp add: at_index_def)
  show ?thesis using False
    by (simp add: getMedian_def Let_def d a1 a2)
qed

text \<open>
  C2: for a numeric field with an entry in the result, the reported median is read off
  the included values sorted ascending: for an odd count \<open>n\<close> the element at index
  \<open>n div 2\<close>, for an even count the arithmetic mean of the elements at indices
  \<open>n div 2 - 1\<close> and \<open>n div 2\<close> (0-based). The values 1, 2, 3, 4 give 2.5.
\<close>

theorem median_of_sorted_values:
  assumes "calculateStatistics data fs nm = Some s"
    and "sorted_wrt js_le sv" and "mset sv = mset (field_values data nm)"
  shows "median s =
     (if odd (length sv) then sv ! (length sv div 2)
      else js_div (js_add (sv ! (length sv div 2 - 1)) (sv ! (length sv div 2))) (Num 2)) \<and>
     getMedian [Num 1, Num 2, Num 3, Num 4] = Num (5 / 2)"
proof -
  have s: "s = field_summary (field_values data nm)" and ne: "field_values data nm \<noteq> []"
    using assms(1) by (auto simp: calculateStatistics_lookup split: if_splits)
  have sv: "sv = js_sort (field_values data nm)"
    using assms(2,3) by (rule js_sort_unique) (rule field_values_no_NaN)
  have "sv \<noteq> []" using assms(3) ne by auto
  then have "median s =
     (if odd (length sv) then sv ! (length sv div 2)
      else js_div (js_add (sv ! (length sv div 2 - 1)) (sv ! (length sv div 2))) (Num 2))"
    by (simp add: s field_summary_def Let_def sv[symmetric] getMedian_nth)
  moreover have "getMedian [Num 1, Num 2, Num 3, Num 4] = Num (5 / 2)"
    by (simp add: getMedian_def at_index_def range_result_def overflow_def
        overflow_threshold_def underflow_threshold_def)
  ultimately show ?thesis by simp
qed

theorem median_of_sorted_values_witness:
  "map_option median (calculateStatistics
     [map_of [(''v'', JNum (Num 3))], map_of [(''v'', JNum (Num 1))], map_of [(''v'', JNum (Num 4))], map_of [(''v'', JNum (Num 2))]]
     [\<lparr>name = ''v'', type = Number, options = None, required = True\<rparr>] ''v'') = Some (Num (5 / 2)) \<and>
   sorted_wrt js_le [Num 1, Num 2, Num 3, Num 4] \<and>
   mset [Num 1, Num 2, Num 3, Num 4] = mset (field_values
     [map_of [(''v'', JNum (Num 3))], map_of [(''v'', JNum (Num 1))], map_of [(''v'', JNum (Num 4))], map_of [(''v'', JNum (Num 2))]] ''v'')"
proof -
  let ?D = "[map_of [(''v'', JNum (Num 3))], map_of [(''v'', JNum (Num 1))], map_of [(''v'', JNum (Num 4))], map_of [(''v'', JNum (Num 2))]]"
  let ?F = "[\<lparr>name = ''v'', type = Number, options = None, required = True\<rparr>]"
  have c: "calculateStatistics ?D ?F ''v'' = Some (field_summary (field_values ?D ''v''))"
    by (simp add: calculateStatistics_lookup field_values_eq)
  have so: "sorted_wrt js_le [Num 1, Num 2, Num 3, Num 4]"
    by (simp add: js_le_def)
  have ms: "mset [Num 1, Num 2, Num 3, Num 4] = mset (field_values ?D ''v'')"
    by (simp add: field_values_eq)
  show ?thesis
    using median_of_sorted_values[OF c so ms] c so ms
    by (simp add: range_result_def overflow_def overflow_threshold_def underflow_threshold_def)
qed

section \<open>The submission check\<close>

lemma truthy_get_property:
  "k \<notin> set Object_prototype_keys \<Longrightarrow> form_value (fd k) \<Longrightarrow>
   truthy (get_property fd k) = (\<not> absent_or_empty (fd k))"
proof (cases "fd k")
  case None
  assume "k \<notin> set Object_prototype_keys"
  then have "k \<noteq> ''__proto__''" by (auto simp: Object_prototype_keys_def)
  then show ?thesis using None \<open>k \<notin> set Object_prototype_keys\<close>
    by (simp add: get_property_def absent_or_empty_def)
next
  case (Some v)
  assume "form_value (fd k)"
  then show ?thesis using Some
    by (cases v) (simp_all add: get_property_def absent_or_empty_def)
qed

lemma handleSubmit_loop_filter:
  "handleSubmit_loop fs fd =
     (case filter (\<lambda>f. required f \<and> \<not> truthy (get_property fd (name f))) fs of
        [] \<Rightarrow> None
      | f # rest \<Rightarrow> Some (name f @ '' is required''))"
  by (induction fs) auto

lemma renderField_onChange_form_value: "form_value (Some (renderField_onChange field raw))"
  by (simp add: renderField_onChange_def Let_def)

text \<open>
  A required field named like a member that every object inherits passes the check with
  nothing supplied: the read finds the inherited function.
\<close>

lemma required_inherited_name_is_posted:
  "handleSubmit [\<lparr>name = ''toString'', type = Text, options = None, required = True\<rparr>] (map_of [])
   = Posted (map_of [])"
  by (simp add: handleSubmit_def get_property_def Object_prototype_keys_def)

text \<open>
  C5, as stated, fails: with two required fields both missing, the caller is told about
  the first one only.
\<close>

theorem submit_reports_first_failure_only:
  "required \<lparr>name = ''b'', type = Text, options = None, required = True\<rparr> \<and>
   absent_or_empty (map_of [] (name \<lparr>name = ''b'', type = Text, options = None, required = True\<rparr>)) \<and>
   handleSubmit
     [\<lparr>name = ''a'', type = Text, options = None, required = True\<rparr>,
      \<lparr>name = ''b'', type = Text, options = None, required = True\<rparr>] (map_of [])
   = Alerted ''a is required''"
  by (simp add: handleSubmit_def get_property_def Object_prototype_keys_def absent_or_empty_def)

text \<open>
  C5, amended: for a schema and data as the entry form builds them (no required field is
  named like a member that every object inherits, and the value of each required field is
  absent, a string, or a number other than 0), the submission check is all-or-nothing. If
  any required field is absent or empty, the whole submission is rejected, nothing is
  posted, and the caller is told the first such field in schema order, and only that one;
  otherwise the data is posted as it is.
\<close>

theorem submit_all_or_nothing_first_failure:
  assumes "\<forall>f\<in>set fs. required f \<longrightarrow>
             name f \<notin> set Object_prototype_keys \<and> form_value (fd (name f))"
  shows "handleSubmit fs fd =
     (case filter (\<lambda>f. required f \<and> absent_or_empty (fd (name f))) fs of
        [] \<Rightarrow> Posted fd
      | f # rest \<Rightarrow> Alerted (name f @ '' is required''))"
proof -
  have "filter (\<lambda>f. required f \<and> \<not> truthy (get_property fd (name f))) fs
      = filter (\<lambda>f. required f \<and> absent_or_empty (fd (name f))) fs"
    using assms by (intro filter_cong refl) (auto simp: truthy_get_property)
  then show ?thesis
    by (simp add: handleSubmit_def handleSubmit_loop_filter split: list.split)
qed

theorem submit_all_or_nothing_first_failure_witness:
  "''a'' \<notin> set Object_prototype_keys \<and> ''b'' \<notin> set Object_prototype_keys \<and>
   ''c'' \<notin> set Object_prototype_keys \<and>
   form_value (map_of [(''a'', JStr ''x'')] ''a'') \<and> form_value (map_of [(''a'', JStr ''x'')] ''b'') \<and>
   form_value (map_of [(''a'', JStr ''x'')] ''c'') \<and>
   handleSubmit
     [\<lparr>name = ''a'', type = Text, options = None, required = True\<rparr>,
      \<lparr>name = ''b'', type = Text, options = None, required = True\<rparr>,
      \<lparr>name = ''c'', type = Text, options = None, required = True\<rparr>]
     (map_of [(''a'', JStr ''x'')])
   = Alerted ''b is required'' \<and>
   handleSubmit
     [\<lparr>name = ''a'', type = Text, options = None, required = True\<rparr>]
     (map_of [(''a'', JStr ''x'')])
   = Posted (map_of [(''a'', JStr ''x'')])"
  using submit_all_or_nothing_first_failure[where fd = "map_of [(''a'', JStr ''x'')]"
      and fs = "[\<lparr>name = ''a'', type = Text, options = None, required = True\<rparr>,
      \<lparr>name = ''b'', type = Text, options = None, required = True\<rparr>,
      \<lparr>name = ''c'', type = Text, options = None, required = True\<rparr>]"]
    submit_all_or_nothing_first_failure[where fd = "map_of [(''a'', JStr ''x'')]"
      and fs = "[\<lparr>name = ''a'', type = Text, options = None, required = True\<rparr>]"]
  by (simp add: Object_prototype_keys_def absent_or_empty_def)

text \<open>
  C6, as stated, fails: \<open>{rank: "medium"}\<close> against the options \<open>["low", "high"]\<close> is
  posted.
\<close>

theorem select_option_not_checked:
  "''medium'' \<notin> set [''low'', ''high''] \<and>
   handleSubmit
     [\<lparr>name = ''rank'', type = Select, options = Some [''low'', ''high''], required = True\<rparr>]
     (map_of [(''rank'', JStr ''medium'')])
   = Posted (map_of [(''rank'', JStr ''medium'')])"
  by (simp add: handleSubmit_def get_property_def)

text \<open>
  C6, amended: for a field of type select, the submission check accepts every supplied
  non-empty string, whether or not it is among the field's options: the field adds no
  failure, whatever its options are, and there is no failure for an invalid option.
\<close>

theorem select_value_accepted:
  assumes "type f = Select" "fd (name f) = Some (JStr v)" "v \<noteq> []"
  shows "handleSubmit (f # rest) fd = handleSubmit rest fd \<and> handleSubmit [f] fd = Posted fd"
  using assms by (simp add: handleSubmit_def get_property_def)

theorem select_value_accepted_witness:
  "type \<lparr>name = ''rank'', type = Select, options = Some [''low'', ''high''], required = True\<rparr> = Select \<and>
   map_of [(''rank'', JStr ''low'')] (name \<lparr>name = ''rank'', type = Select, options = Some [''low'', ''high''], required = True\<rparr>)
     = Some (JStr ''low'') \<and> ''low'' \<noteq> [] \<and>
   handleSubmit [\<lparr>name = ''rank'', type = Select, options = Some [''low'', ''high''], required = True\<rparr>]
     (map_of [(''rank'', JStr ''low'')]) = Posted (map_of [(''rank'', JStr ''low'')])"
  using select_value_accepted[where f = "\<lparr>name = ''rank'', type = Select, options = Some [''low'', ''high''], required = True\<rparr>"
    and fd = "map_of [(''rank'', JStr ''low'')]" and v = "''low''" and rest = "[]"]
  by (simp add: handleSubmit_def)

text \<open>
  C7: a required field fails the check when its value is absent or empty, and should
  pass when its value is present and non-empty, such as the number 0. The check tests
  \<open>!formData[field.name]\<close>, so the number 0 is rejected as missing; and typing \<open>0\<close> into
  a required number field stores the empty string, which is rejected as well.
\<close>

theorem required_zero_is_rejected:
  "handleSubmit [\<lparr>name = ''score'', type = Number, options = None, required = True\<rparr>]
     (map_of [(''score'', JNum (Num 0))]) = Alerted ''score is required'' \<and>
   renderField_onChange \<lparr>name = ''score'', type = Number, options = None, required = True\<rparr> ''0'' = JStr [] \<and>
   handleSubmit [\<lparr>name = ''score'', type = Number, options = None, required = True\<rparr>]
     (handleInputChange (map_of []) ''score''
        (renderField_onChange \<lparr>name = ''score'', type = Number, options = None, required = True\<rparr> ''0''))
   = Alerted ''score is required''"
  by (simp add: handleSubmit_def handleInputChange_def renderField_onChange_def parse_defs
      get_property_def)

section \<open>Bounds on the median\<close>




end
